theory Spec2Isabelle
  imports Main
begin

section \<open>Runtime values\<close>

text \<open>
  The engine walks an already decoded value tree through Go's \<open>reflect\<close> package. The tree
  is modelled by the kinds the executor distinguishes: \<open>VInt\<close> stands for every signed
  integer kind, \<open>VUint\<close> for every unsigned one, \<open>VFloat\<close> for both float kinds,
  \<open>VArray\<close> for arrays and slices. A map is the list of its entries in the order in which
  \<open>MapKeys\<close> happens to enumerate them; a struct is the list of its fields in declaration
  order. Pointers and interfaces are followed silently: a nil pointer, a nil interface and
  the invalid \<open>reflect.Value\<close> are all \<open>VNull\<close>.

  No operation on \<open>float64\<close> is modelled; the type is kept abstract.
\<close>

typedecl float64

instantiation float64 :: equal
begin

definition equal_float64 :: "float64 \<Rightarrow> float64 \<Rightarrow> bool" where
  "equal_float64 x y = (x = y)"

instance
  by standard (simp add: equal_float64_def)

end

datatype val =
    VNull
  | VBool bool
  | VInt int
  | VUint nat
  | VFloat float64
  | VString string
  | VArray "val list"
  | VMap "(val \<times> val) list"
  | VStruct "(string \<times> val) list"

text \<open>strutils.go, \<open>indirect\<close>: the dereferenced value and whether it is nil.\<close>

definition indirect :: "val \<Rightarrow> val \<times> bool" where
  "indirect v = (v, v = VNull)"

text \<open>part\_004, \<open>typeHasChildren\<close>.\<close>

fun typeHasChildren :: "val \<Rightarrow> bool" where
  "typeHasChildren (VArray _) = True"
| "typeHasChildren (VStruct _) = True"
| "typeHasChildren (VMap _) = True"
| "typeHasChildren _ = False"

section \<open>Query results\<close>

text \<open>
  A \<open>val\<close> is a value of the data as \<open>indirect\<close> gives it, pointers and interfaces
  followed. A \<open>reflect.Value\<close> that a Singular holds is read by \<open>getSingularString\<close>
  without \<open>indirect\<close>, so its own kind counts: it is the value itself (\<open>Direct\<close>), or
  a \<open>reflect.Value\<close> of kind Interface or Pointer that leads to the value (\<open>Wrapped\<close>,
  to \<open>VNull\<close> when it is nil).
\<close>

datatype rvalue = Direct val | Wrapped val

fun underlying :: "rvalue \<Rightarrow> val" where
  "underlying (Direct v) = v"
| "underlying (Wrapped v) = v"

text \<open>
  \<open>Singular.Value\<close> is an \<open>interface{}\<close>: nil, a Go primitive, or a \<open>reflect.Value\<close>
  (\<open>SRef\<close>). \<open>ResultSet.Elems\<close> is a slice, which may be nil (\<open>None\<close>). A
  \<open>QueryResult\<close> that is the nil interface is \<open>QNil\<close>.
\<close>

datatype sval =
    SNil
  | SBool bool
  | SInt int
  | SUint nat
  | SFloat float64
  | SString string
  | SRef rvalue

datatype qresult =
    QNil
  | ResultSet "val list option"
  | Singular sval

fun elemsOf :: "val list option \<Rightarrow> val list" where
  "elemsOf None = []"
| "elemsOf (Some xs) = xs"

section \<open>Errors\<close>

text \<open>
  The messages are kept by kind rather than by text. \<open>ExecutionError\<close> carries the name of
  the query it was raised in; \<open>Errorf\<close> is an error built with \<open>fmt.Errorf\<close>;
  \<open>RegexpError\<close> is what \<open>regexp.Compile\<close> returns for the given pattern; \<open>Panic\<close>
  is a Go panic.
\<close>

datatype execMsg =
    MissingKeyValueIsNil string
  | MissingKeyNotNamedValues string
  | MissingKeyDoesNotExist string
  | MissingKeyIndex int
  | MissingKeyIndexNonArray
  | MissingKeySliceNonArray
  | FctDoesNotExist string
  | InvalidNilInLogicalExpr
  | InvalidTypeInLogicalExpr

datatype fmtMsg =
    MultipleElementsInComparison
  | InvalidNrOfArgs
  | CountUnsupportedType
  | CannotExtractSingularString
  | CannotExtractSingularValue
  | FunctionAlreadyDefined string

datatype error =
    ExecutionError string execMsg
  | Errorf fmtMsg
  | RegexpError string
  | Panic string

fun isMissingKeyMsg :: "execMsg \<Rightarrow> bool" where
  "isMissingKeyMsg (MissingKeyValueIsNil _) = True"
| "isMissingKeyMsg (MissingKeyNotNamedValues _) = True"
| "isMissingKeyMsg (MissingKeyDoesNotExist _) = True"
| "isMissingKeyMsg (MissingKeyIndex _) = True"
| "isMissingKeyMsg MissingKeyIndexNonArray = True"
| "isMissingKeyMsg MissingKeySliceNonArray = True"
| "isMissingKeyMsg _ = False"

fun isMissingKeyError :: "error \<Rightarrow> bool" where
  "isMissingKeyError (ExecutionError _ m) = isMissingKeyMsg m"
| "isMissingKeyError _ = False"

section \<open>Built-in filter functions (functions.go part of parsetmpl.go)\<close>

type_synonym QueryFunction = "qresult list \<Rightarrow> error + qresult"

text \<open>
  \<open>regexp.Compile\<close> is Go's standard library: it is a parameter, giving for a pattern either
  nothing (the pattern does not compile) or the \<open>MatchString\<close> predicate of the compiled
  expression.
\<close>

type_synonym regexpCompile = "string \<Rightarrow> (string \<Rightarrow> bool) option"

fun getSingularString :: "qresult \<Rightarrow> error + sval option" where
  "getSingularString QNil = Inr None"
| "getSingularString (ResultSet rs) =
     (if length (elemsOf rs) \<le> 0 then Inr None
      else if length (elemsOf rs) > 1 then Inl (Errorf CannotExtractSingularString)
      else (case indirect (elemsOf rs ! 0) of
              (reV, isNil) \<Rightarrow>
                if isNil then Inr None
                else (case reV of
                        VString s \<Rightarrow> Inr (Some (SString s))
                      | _ \<Rightarrow> Inr None)))"
| "getSingularString (Singular rv) =
     (case rv of
        SString s \<Rightarrow> Inr (Some (SString s))
      | SRef reflV \<Rightarrow>
          (case reflV of
             Direct v \<Rightarrow> (case v of VString s \<Rightarrow> Inr (Some (SString s)) | _ \<Rightarrow> Inr None)
           | Wrapped _ \<Rightarrow> Inr None)
      | _ \<Rightarrow> Inr None)"

definition count :: QueryFunction where
  "count args =
     (if length args \<noteq> 1 then Inl (Errorf InvalidNrOfArgs)
      else (case args ! 0 of
              QNil \<Rightarrow> Inr QNil
            | ResultSet rs \<Rightarrow>
                (case rs of
                   None \<Rightarrow> Inr QNil
                 | Some xs \<Rightarrow> Inr (Singular (SInt (int (length xs)))))
            | Singular _ \<Rightarrow> Inl (Errorf CountUnsupportedType)))"

fun lengthOfVal :: "val \<Rightarrow> qresult" where
  "lengthOfVal (VArray xs) = Singular (SInt (int (length xs)))"
| "lengthOfVal (VString s) = Singular (SInt (int (length s)))"
| "lengthOfVal (VMap kvs) = Singular (SInt (int (length kvs)))"
| "lengthOfVal (VStruct fs) = Singular (SInt (int (length fs)))"
| "lengthOfVal _ = QNil"

definition length_fct :: QueryFunction where
  "length_fct args =
     (if length args \<noteq> 1 then Inl (Errorf InvalidNrOfArgs)
      else (case args ! 0 of
              QNil \<Rightarrow> Inr QNil
            | ResultSet rs \<Rightarrow>
                (if length (elemsOf rs) \<le> 0 then Inr QNil
                 else if length (elemsOf rs) > 1 then Inl (Errorf CannotExtractSingularValue)
                 else (case indirect (elemsOf rs ! 0) of
                         (singularValue, isNil) \<Rightarrow>
                           if isNil then Inr QNil else Inr (lengthOfVal singularValue)))
            | Singular rs \<Rightarrow>
                (case rs of
                   SNil \<Rightarrow> Inr QNil
                 | SString s \<Rightarrow> Inr (Singular (SInt (int (length s))))
                 | SRef rv \<Rightarrow>
                     (case indirect (underlying rv) of
                        (r, isNil) \<Rightarrow> if isNil then Inr QNil else Inr (lengthOfVal r))
                 | _ \<Rightarrow> Inr QNil)))"

text \<open>
  The type assertion \<open>Value.(string)\<close> panics on anything but a string. The backslash of
  the two anchors is written as a character code.
\<close>

definition match :: "regexpCompile \<Rightarrow> QueryFunction" where
  "match compile args =
     (if length args \<noteq> 2 then Inl (Errorf InvalidNrOfArgs)
      else (case getSingularString (args ! 0) of
              Inl err \<Rightarrow> Inl err
            | Inr matchTargetSingular \<Rightarrow>
                (case getSingularString (args ! 1) of
                   Inl err \<Rightarrow> Inl err
                 | Inr regexpSingular \<Rightarrow>
                     if matchTargetSingular = None \<or> regexpSingular = None
                        \<or> matchTargetSingular = Some SNil \<or> regexpSingular = Some SNil
                     then Inr QNil
                     else (case (matchTargetSingular, regexpSingular) of
                             (Some (SString target), Some (SString re)) \<Rightarrow>
                               (case compile (CHR 0x5C # ''A(?:'' @ re @ '')'' @ CHR 0x5C # ''z'') of
                                  None \<Rightarrow> Inl (RegexpError re)
                                | Some matchString \<Rightarrow>
                                    Inr (Singular (SBool (matchString target))))
                           | _ \<Rightarrow> Inl (Panic ''interface conversion'')))))"

definition search :: "regexpCompile \<Rightarrow> QueryFunction" where
  "search compile args =
     (if length args \<noteq> 2 then Inl (Errorf InvalidNrOfArgs)
      else (case getSingularString (args ! 0) of
              Inl err \<Rightarrow> Inl err
            | Inr matchTargetSingular \<Rightarrow>
                (case getSingularString (args ! 1) of
                   Inl err \<Rightarrow> Inl err
                 | Inr regexpSingular \<Rightarrow>
                     if matchTargetSingular = None \<or> regexpSingular = None
                        \<or> matchTargetSingular = Some SNil \<or> regexpSingular = Some SNil
                     then Inr QNil
                     else (case (matchTargetSingular, regexpSingular) of
                             (Some (SString target), Some (SString re)) \<Rightarrow>
                               (case compile re of
                                  None \<Rightarrow> Inl (RegexpError re)
                                | Some matchString \<Rightarrow>
                                    Inr (Singular (SBool (matchString target))))
                           | _ \<Rightarrow> Inl (Panic ''interface conversion'')))))"

text \<open>The registry is a Go map from names to functions: the list of its entries.\<close>

type_synonym functionRegistry = "(string \<times> QueryFunction) list"

definition newFunctionRegistry :: "regexpCompile \<Rightarrow> functionRegistry" where
  "newFunctionRegistry compile =
     [(''count'', count), (''length'', length_fct),
      (''match'', match compile), (''search'', search compile)]"

definition register ::
  "functionRegistry \<Rightarrow> string \<Rightarrow> QueryFunction \<Rightarrow> error + functionRegistry" where
  "register r fctName f =
     (case map_of r fctName of
        Some _ \<Rightarrow> Inl (Errorf (FunctionAlreadyDefined fctName))
      | None \<Rightarrow> Inr (r @ [(fctName, f)]))"

section \<open>Comparison of two singular operands (part\_004)\<close>

text \<open>
  A \<open>*Singular\<close> that is nil (\<open>None\<close>) is an operand that did not evaluate to a value;
  \<open>Some SNil\<close> is the JSON null. \<open>compareRValues\<close>, the matrix for two operands that are
  both values, works on \<open>reflect\<close> kinds, \<open>strconv\<close> and \<open>float64\<close>; it is a parameter,
  the one field of \<open>comparisonMatrix\<close>. The operator is a string, as
  \<open>comparisonOpTypeEnum\<close> is.
\<close>

type_synonym comparisonOpTypeEnum = string

abbreviation ltOp :: comparisonOpTypeEnum where "ltOp \<equiv> ''<''"
abbreviation gtOp :: comparisonOpTypeEnum where "gtOp \<equiv> ''>''"
abbreviation leOp :: comparisonOpTypeEnum where "leOp \<equiv> ''<=''"
abbreviation geOp :: comparisonOpTypeEnum where "geOp \<equiv> ''>=''"
abbreviation neOp :: comparisonOpTypeEnum where "neOp \<equiv> ''!=''"

record comparisonMatrix =
  compareRValues :: "val \<Rightarrow> val \<Rightarrow> comparisonOpTypeEnum \<Rightarrow> bool"

text \<open>\<open>reflect.ValueOf\<close> of a primitive held in a Singular.\<close>

fun valueOf :: "sval \<Rightarrow> val" where
  "valueOf SNil = VNull"
| "valueOf (SBool b) = VBool b"
| "valueOf (SInt i) = VInt i"
| "valueOf (SUint u) = VUint u"
| "valueOf (SFloat f) = VFloat f"
| "valueOf (SString s) = VString s"
| "valueOf (SRef rv) = underlying rv"

definition compareValues ::
  "comparisonMatrix \<Rightarrow> sval option \<Rightarrow> sval option \<Rightarrow> comparisonOpTypeEnum \<Rightarrow> bool" where
  "compareValues C l r op =
     (if l = None \<or> r = None then l = None \<and> r = None
      else if the l = SNil \<or> the r = SNil then the l = SNil \<and> the r = SNil
      else compareRValues C (valueOf (the l)) (valueOf (the r)) op)"

text \<open>
  \<open>evalSingularExpr\<close> evaluates the operand with \<open>evalExpr\<close> and reduces what comes back;
  \<open>singularOf\<close> is that reduction.
\<close>

fun singularOfElem :: "val \<Rightarrow> sval" where
  "singularOfElem VNull = SNil"
| "singularOfElem (VBool b) = SBool b"
| "singularOfElem (VInt i) = SInt i"
| "singularOfElem (VUint u) = SUint u"
| "singularOfElem (VFloat f) = SFloat f"
| "singularOfElem (VString s) = SString s"
| "singularOfElem v = SRef (Direct v)"

fun singularOf :: "error + qresult \<Rightarrow> error + sval option" where
  "singularOf (Inl err) = Inl err"
| "singularOf (Inr QNil) = Inr None"
| "singularOf (Inr (ResultSet rSet)) =
     (if length (elemsOf rSet) > 1 then Inl (Errorf MultipleElementsInComparison)
      else if length (elemsOf rSet) \<le> 0 then Inr None
      else Inr (Some (singularOfElem (elemsOf rSet ! 0))))"
| "singularOf (Inr (Singular v)) = Inr (Some v)"

section \<open>Query AST (parsetmpl.go, AST part)\<close>

type_synonym logicalOpTypeEnum = string

abbreviation andOp :: logicalOpTypeEnum where "andOp \<equiv> ''&&''"
abbreviation orOp :: logicalOpTypeEnum where "orOp \<equiv> ''||''"
abbreviation notOp :: logicalOpTypeEnum where "notOp \<equiv> ''!''"

datatype nodeIdentifierSymbol = rootNodeSymbol | currentNodeSymbol

datatype segmentTypeEnum = childSegmentType | descendantSegmentType

record optionalInt =
  isDefined :: bool
  intValue :: int

datatype selector =
    WildcardSelector
  | NameSelector string
  | IndexSelector int
  | ArraySliceSelector optionalInt optionalInt int
  | FilterSelector filterExpr
and filterExpr =
    LogicalExpr filterExpr "filterExpr option" logicalOpTypeEnum
  | CompareExpr filterExpr filterExpr comparisonOpTypeEnum
  | FilterQry bool queryParser
  | FunctionExpr string "filterExpr list"
  | ParenExpr filterExpr
  | StringLiteral string
  | IntLiteral int
  | FloatLiteral float64
  | BoolLiteral bool
  | NullLiteral
and segment =
    SegmentImpl (getType: segmentTypeEnum) (getSelectors: "selector list")
and nodeIdentifier =
    NodeIdentifier (nodeIdentifierSymbol: nodeIdentifierSymbol) (segments: "segment list")
and queryParser =
    QueryParser (parserName: string) (root: nodeIdentifier) (isSingular: bool)


section \<open>Query executor (part\_004)\<close>

text \<open>
  The execution context. Debug output (\<open>dbgMsgf\<close>) only prints and is not modelled.
\<close>

record qryExecContext =
  name :: string
  dataRoot :: val
  evalExistenceOnly :: bool
  allowMissingKeys :: bool
  remainingSegments :: "segment list"
  qryFunctions :: functionRegistry
  enableDbgMsgs :: bool
  curSegment :: "segment option"
  curSelector :: "selector option"

definition areMissingKeysAllowed :: "qryExecContext \<Rightarrow> bool" where
  "areMissingKeysAllowed ctx =
     (allowMissingKeys ctx
      \<or> (curSegment ctx \<noteq> None \<and> getType (the (curSegment ctx)) \<noteq> childSegmentType))"

definition isDescending :: "qryExecContext \<Rightarrow> bool" where
  "isDescending ctx =
     (curSegment ctx \<noteq> None \<and> getType (the (curSegment ctx)) = descendantSegmentType)"

text \<open>
  \<open>remainingSegments[1:]\<close>; the only call comes after the test that a segment is left.
\<close>

definition duplicateAndTakeFirstSegmentOff :: "qryExecContext \<Rightarrow> qryExecContext" where
  "duplicateAndTakeFirstSegmentOff ctx = ctx\<lparr>remainingSegments := tl (remainingSegments ctx)\<rparr>"

datatype kind = KInvalid | KBool | KInt | KUint | KFloat | KString | KArray | KMap | KStruct

fun kindOf :: "val \<Rightarrow> kind" where
  "kindOf VNull = KInvalid"
| "kindOf (VBool _) = KBool"
| "kindOf (VInt _) = KInt"
| "kindOf (VUint _) = KUint"
| "kindOf (VFloat _) = KFloat"
| "kindOf (VString _) = KString"
| "kindOf (VArray _) = KArray"
| "kindOf (VMap _) = KMap"
| "kindOf (VStruct _) = KStruct"

text \<open>
  The children \<open>walkChildren\<close> visits, in the order it visits them, each with the field key
  and the index it hands to the selector function: a struct's fields with their names and
  positions, a map's entries with their keys and the index -1, an array's elements with the
  empty name and their positions, from the last one down when \<open>reverseOrder\<close> is set.
\<close>

datatype fieldKey = FieldName string | MapKey val

fun childrenOf :: "val \<Rightarrow> bool \<Rightarrow> (val \<times> fieldKey \<times> int) list" where
  "childrenOf (VStruct fs) reverseOrder =
     map (\<lambda>(i, fieldName, child). (child, FieldName fieldName, int i)) (enumerate 0 fs)"
| "childrenOf (VMap kvs) reverseOrder =
     map (\<lambda>(key, child). (child, MapKey key, -1)) kvs"
| "childrenOf (VArray xs) reverseOrder =
     (if reverseOrder
      then rev (map (\<lambda>(i, child). (child, FieldName [], int i)) (enumerate 0 xs))
      else map (\<lambda>(i, child). (child, FieldName [], int i)) (enumerate 0 xs))"
| "childrenOf _ reverseOrder = []"

text \<open>
  The loop of \<open>walkChildren\<close> with its closure \<open>withChildDo\<close>. The selector function of the
  source is a closure over a variable it updates (\<open>missingKey\<close>, \<open>nextSliceIndex\<close>); here it
  takes that variable and returns it, and the walk returns its last value next to the
  result or error. A nil \<open>*ResultSet\<close> and an empty one are both the empty list: every
  caller tests \<open>r != nil && len(r.Elems) > 0\<close>.
\<close>

type_synonym 's selectorEvalFct = "'s \<Rightarrow> val \<Rightarrow> fieldKey \<Rightarrow> int \<Rightarrow> (error + bool) \<times> 's"

fun walkList ::
  "bool \<Rightarrow> 's selectorEvalFct \<Rightarrow> (val \<Rightarrow> error + val list) \<Rightarrow> (val \<Rightarrow> error + val list)
   \<Rightarrow> 's \<Rightarrow> val list \<Rightarrow> (val \<times> fieldKey \<times> int) list \<Rightarrow> (error + val list) \<times> 's" where
  "walkList existenceOnly selFct doSel doNot st results [] = (Inr results, st)"
| "walkList existenceOnly selFct doSel doNot st results ((child, fieldKey, index) # rest) =
     (case selFct st child fieldKey index of
        (Inl err, st') \<Rightarrow> (Inl err, st')
      | (Inr isSelected, st') \<Rightarrow>
          (case (if isSelected then doSel child else doNot child) of
             Inl err \<Rightarrow> (Inl err, st')
           | Inr childResults \<Rightarrow>
               if existenceOnly \<and> length (results @ childResults) > 0
               then (Inr (results @ childResults), st')
               else walkList existenceOnly selFct doSel doNot st' (results @ childResults) rest))"

definition walkChildren ::
  "qryExecContext \<Rightarrow> val \<Rightarrow> bool \<Rightarrow> (kind \<Rightarrow> 's selectorEvalFct) \<Rightarrow> 's
   \<Rightarrow> (val \<Rightarrow> error + val list) \<Rightarrow> (val \<Rightarrow> error + val list) \<Rightarrow> (error + val list) \<times> 's" where
  "walkChildren ctx curNode reverseOrder selFct st doSel doNot =
     (case indirect curNode of
        (currNodeVal, currNodeIsNil) \<Rightarrow>
          if currNodeIsNil then (Inr [], st)
          else walkList (evalExistenceOnly ctx) (selFct (kindOf currNodeVal)) doSel doNot st []
                 (childrenOf currNodeVal reverseOrder))"

text \<open>The selector functions that do not evaluate a filter.\<close>

definition wildcardSelFct :: "kind \<Rightarrow> unit selectorEvalFct" where
  "wildcardSelFct k st child fieldKey index = (Inr True, st)"

text \<open>The state is \<open>missingKey\<close>.\<close>

definition nameSelFct :: "string \<Rightarrow> kind \<Rightarrow> bool selectorEvalFct" where
  "nameSelFct selName k missingKey child fieldKey index =
     (case k of
        KMap \<Rightarrow>
          (case fieldKey of
             FieldName s \<Rightarrow> (Inr (s = selName), missingKey \<and> \<not> (s = selName))
           | MapKey key \<Rightarrow>
               (case indirect key of
                  (fV, isNil) \<Rightarrow>
                    if \<not> isNil \<and> kindOf fV = KString
                    then (Inr (fV = VString selName), missingKey \<and> \<not> (fV = VString selName))
                    else (Inr False, missingKey)))
      | KStruct \<Rightarrow>
          (case fieldKey of
             FieldName s \<Rightarrow> (Inr (s = selName), missingKey \<and> \<not> (s = selName))
           | MapKey key \<Rightarrow> (Inl (Panic ''interface conversion''), missingKey))
      | _ \<Rightarrow> (Inr False, missingKey))"

definition indexSelFct :: "int \<Rightarrow> kind \<Rightarrow> unit selectorEvalFct" where
  "indexSelFct selIndex k st child fieldKey index =
     (case k of
        KArray \<Rightarrow> (Inr (index = selIndex), st)
      | _ \<Rightarrow> (Inr False, st))"

text \<open>The state is \<open>nextSliceIndex\<close>.\<close>

definition sliceSelFct :: "int \<Rightarrow> int \<Rightarrow> int \<Rightarrow> kind \<Rightarrow> int selectorEvalFct" where
  "sliceSelFct sliceStep step sliceEnd k nextSliceIndex child fieldKey index =
     (case k of
        KArray \<Rightarrow>
          if index = nextSliceIndex
             \<and> (step > 0 \<and> nextSliceIndex < sliceEnd \<or> step < 0 \<and> nextSliceIndex > sliceEnd)
          then (Inr True, nextSliceIndex + sliceStep)
          else (Inr False, nextSliceIndex)
      | KString \<Rightarrow>
          if index = nextSliceIndex
             \<and> (step > 0 \<and> nextSliceIndex < sliceEnd \<or> step < 0 \<and> nextSliceIndex > sliceEnd)
          then (Inr True, nextSliceIndex + sliceStep)
          else (Inr False, nextSliceIndex)
      | _ \<Rightarrow> (Inl (Panic ''internal error - only array/slice/string expected''), nextSliceIndex))"

definition noSliceSelFct :: "kind \<Rightarrow> unit selectorEvalFct" where
  "noSliceSelFct k st child fieldKey index =
     (case k of
        KArray \<Rightarrow> (Inl (Panic ''internal error - NOT expected: array/slice/string''), st)
      | KString \<Rightarrow> (Inl (Panic ''internal error - NOT expected: array/slice/string''), st)
      | _ \<Rightarrow> (Inr False, st))"

text \<open>The length \<open>reflect.Value.Len\<close> gives for an array, a slice or a string.\<close>

fun lenOf :: "val \<Rightarrow> int" where
  "lenOf (VArray xs) = int (length xs)"
| "lenOf (VString s) = int (length s)"
| "lenOf _ = 0"

text \<open>
  The bounds \<open>selectChildrenBySliceAndFindResultsForThem\<close> computes from the selector and the
  length of the array: \<open>(sliceStart, sliceEnd, step)\<close>, where \<open>step\<close> is the direction, 1 or -1.
\<close>

definition sliceBounds :: "optionalInt \<Rightarrow> optionalInt \<Rightarrow> int \<Rightarrow> int \<Rightarrow> int \<times> int \<times> int" where
  "sliceBounds selStart selEnd sliceStep arrLength =
     (let sliceStart0 = (if sliceStep < 0 then (if arrLength \<ge> 1 then arrLength - 1 else 0) else 0);
          sliceEnd0 = (if sliceStep < 0 then -1 else arrLength);
          step = (if sliceStep < 0 then -1 else 1);
          sliceStart =
            (if isDefined selStart
             then (if intValue selStart < 0
                   then (if arrLength + intValue selStart > 0 then arrLength + intValue selStart else 0)
                   else intValue selStart)
             else sliceStart0);
          sliceEnd =
            (if isDefined selEnd
             then (if intValue selEnd < 0 then arrLength + intValue selEnd else intValue selEnd)
             else sliceEnd0)
      in (sliceStart, sliceEnd, step))"

text \<open>What \<open>evalBoolSingularOrExistenceExpr\<close> makes of the result of \<open>evalExpr\<close>.\<close>

fun boolSingularOrExistence :: "qryExecContext \<Rightarrow> error + qresult \<Rightarrow> error + sval option" where
  "boolSingularOrExistence ctx (Inl err) = Inl err"
| "boolSingularOrExistence ctx (Inr QNil) = Inr None"
| "boolSingularOrExistence ctx (Inr (ResultSet rs)) = Inr (Some (SBool (length (elemsOf rs) > 0)))"
| "boolSingularOrExistence ctx (Inr (Singular v)) =
     (case v of
        SNil \<Rightarrow> Inl (ExecutionError (name ctx) InvalidNilInLogicalExpr)
      | SBool b \<Rightarrow> Inr (Some v)
      | _ \<Rightarrow> Inl (ExecutionError (name ctx) InvalidTypeInLogicalExpr))"

text \<open>The loop of \<open>findResults\<close> over the selectors of the current segment.\<close>

fun findResultsLoop ::
  "bool \<Rightarrow> (selector \<Rightarrow> error + val list) \<Rightarrow> val list \<Rightarrow> selector list \<Rightarrow> error + val list" where
  "findResultsLoop existenceOnly f results [] = Inr results"
| "findResultsLoop existenceOnly f results (sel # sels) =
     (case f sel of
        Inl err \<Rightarrow> Inl err
      | Inr nodeResults \<Rightarrow>
          if length nodeResults > 0
          then (if existenceOnly then Inr nodeResults
                else findResultsLoop existenceOnly f (results @ nodeResults) sels)
          else findResultsLoop existenceOnly f results sels)"

text \<open>The loop of \<open>evalFunctionExpr\<close> over the arguments.\<close>

fun evalArgs :: "(filterExpr \<Rightarrow> error + qresult) \<Rightarrow> filterExpr list \<Rightarrow> error + qresult list" where
  "evalArgs f [] = Inr []"
| "evalArgs f (a # as) =
     (case f a of
        Inl err \<Rightarrow> Inl err
      | Inr aR \<Rightarrow> (case evalArgs f as of Inl err \<Rightarrow> Inl err | Inr rs \<Rightarrow> Inr (aR # rs)))"

lemma walkList_cong_aux:
  "(\<forall>c k i. (c, k, i) \<in> set cs \<longrightarrow>
       (\<forall>s. selFct s c k i = selFct' s c k i) \<and> doSel c = doSel' c \<and> doNot c = doNot' c) \<Longrightarrow>
   walkList existenceOnly selFct doSel doNot st results cs
     = walkList existenceOnly selFct' doSel' doNot' st results cs"
proof (induction cs arbitrary: st results)
  case Nil
  then show ?case by simp
next
  case (Cons x xs)
  obtain c k i where x: "x = (c, k, i)" by (cases x) auto
  have h: "(\<forall>s. selFct s c k i = selFct' s c k i) \<and> doSel c = doSel' c \<and> doNot c = doNot' c"
    using Cons.prems x by simp
  have r: "\<And>st'' res. walkList existenceOnly selFct doSel doNot st'' res xs
       = walkList existenceOnly selFct' doSel' doNot' st'' res xs"
  proof -
    fix st'' res
    have "\<forall>c k i. (c, k, i) \<in> set xs \<longrightarrow>
       (\<forall>s. selFct s c k i = selFct' s c k i) \<and> doSel c = doSel' c \<and> doNot c = doNot' c"
      using Cons.prems by auto
    then show "walkList existenceOnly selFct doSel doNot st'' res xs
       = walkList existenceOnly selFct' doSel' doNot' st'' res xs"
      by (rule Cons.IH)
  qed
  show ?case
    by (simp only: x walkList.simps h r)
qed

lemma walkList_cong [fundef_cong]:
  assumes "existenceOnly = existenceOnly'" "st = st'" "results = results'" "cs = cs'"
    and "\<And>s c k i. (c, k, i) \<in> set cs' \<Longrightarrow> selFct s c k i = selFct' s c k i"
    and "\<And>c k i. (c, k, i) \<in> set cs' \<Longrightarrow> doSel c = doSel' c"
    and "\<And>c k i. (c, k, i) \<in> set cs' \<Longrightarrow> doNot c = doNot' c"
  shows "walkList existenceOnly selFct doSel doNot st results cs
       = walkList existenceOnly' selFct' doSel' doNot' st' results' cs'"
  unfolding assms(1-4)
  by (rule walkList_cong_aux) (use assms(5-7) in blast)

lemma walkChildren_cong [fundef_cong]:
  assumes "ctx = ctx'" "curNode = curNode'" "reverseOrder = reverseOrder'" "st = st'"
    and "\<And>kd s c k i. (c, k, i) \<in> set (childrenOf curNode' reverseOrder') \<Longrightarrow>
           selFct kd s c k i = selFct' kd s c k i"
    and "\<And>c k i. (c, k, i) \<in> set (childrenOf curNode' reverseOrder') \<Longrightarrow> doSel c = doSel' c"
    and "\<And>c k i. (c, k, i) \<in> set (childrenOf curNode' reverseOrder') \<Longrightarrow> doNot c = doNot' c"
  shows "walkChildren ctx curNode reverseOrder selFct st doSel doNot
       = walkChildren ctx' curNode' reverseOrder' selFct' st' doSel' doNot'"
  unfolding walkChildren_def assms(1-4) indirect_def
  using assms(5-7) by (auto intro!: walkList_cong)

lemma findResultsLoop_cong [fundef_cong]:
  assumes "existenceOnly = existenceOnly'" "results = results'" "sels = sels'"
    and "\<And>sel. sel \<in> set sels' \<Longrightarrow> f sel = f' sel"
  shows "findResultsLoop existenceOnly f results sels = findResultsLoop existenceOnly' f' results' sels'"
  using assms(4) unfolding assms(1-3)
  by (induction sels' arbitrary: results') (auto split: sum.splits)

lemma evalArgs_cong [fundef_cong]:
  assumes "as = as'" and "\<And>a. a \<in> set as' \<Longrightarrow> f a = f' a"
  shows "evalArgs f as = evalArgs f' as'"
  using assms(2) unfolding assms(1)
  by (induction as') (auto split: sum.splits)


lemma childrenOf_size:
  "(c, k, i) \<in> set (childrenOf v reverseOrder) \<Longrightarrow> size c < size v"
proof (cases v)
  case (VArray xs)
  assume "(c, k, i) \<in> set (childrenOf v reverseOrder)"
  with VArray have "c \<in> set xs" by (auto simp: in_set_enumerate_eq split: if_splits)
  then have "size c < Suc (size_list size xs)" by (induction xs) auto
  with VArray show ?thesis by simp
next
  case (VMap kvs)
  assume "(c, k, i) \<in> set (childrenOf v reverseOrder)"
  with VMap obtain key where "(key, c) \<in> set kvs" by auto
  then have "size c < Suc (size_list (size_prod size size) kvs)" by (induction kvs) auto
  with VMap show ?thesis by simp
next
  case (VStruct fs)
  assume "(c, k, i) \<in> set (childrenOf v reverseOrder)"
  with VStruct obtain nm where "(nm, c) \<in> set fs"
    by (auto simp: in_set_enumerate_eq) (metis nth_mem)
  then have "size c < Suc (size_list (size_prod (\<lambda>x. 0) size) fs)" by (induction fs) auto
  with VStruct show ?thesis by simp
qed auto

lemma size_segments_root: "size_list size (segments (root p)) < size p"
  by (cases p, rename_tac nm r sing, case_tac r) simp

text \<open>
  Termination: a call either moves to a smaller part of the query, or keeps the selector and
  the remaining segments and moves to a child of the node.
\<close>

definition ctxMeasure :: "qryExecContext \<Rightarrow> nat" where
  "ctxMeasure ctx =
     size_list size (remainingSegments ctx)
     + (case curSelector ctx of None \<Rightarrow> 0 | Some sel \<Rightarrow> size sel) + 1"

lemma size_selector_in_segment: "sel \<in> set (getSelectors seg) \<Longrightarrow> size sel < size seg"
  by (cases seg) (auto simp: less_Suc_eq_le dest: size_list_estimation' [where f = size and y = "size sel"])

lemma size_arg_in_args: "a \<in> set args \<Longrightarrow> size a < Suc (size_list size args)"
  by (induction args) auto

text \<open>
  The executor. \<open>C\<close> holds \<open>compareRValues\<close>. The functions that take a pointer to an
  expression node take its fields.
\<close>

function
  executeQuery ::
    "comparisonMatrix \<Rightarrow> queryParser \<Rightarrow> val \<Rightarrow> val \<Rightarrow> bool \<Rightarrow> bool \<Rightarrow> functionRegistry \<Rightarrow> bool
     \<Rightarrow> error + val list"
and findResults :: "comparisonMatrix \<Rightarrow> qryExecContext \<Rightarrow> val \<Rightarrow> error + val list"
and selectChildrenAndFindResultsForThem ::
    "comparisonMatrix \<Rightarrow> qryExecContext \<Rightarrow> val \<Rightarrow> error + val list"
and selectAllChildrenAndFindResultsForThem ::
    "comparisonMatrix \<Rightarrow> qryExecContext \<Rightarrow> val \<Rightarrow> error + val list"
and selectChildByNameAndFindResultsForThem ::
    "comparisonMatrix \<Rightarrow> qryExecContext \<Rightarrow> val \<Rightarrow> error + val list"
and selectChildByIndexAndFindResultsForThem ::
    "comparisonMatrix \<Rightarrow> qryExecContext \<Rightarrow> val \<Rightarrow> error + val list"
and selectChildrenBySliceAndFindResultsForThem ::
    "comparisonMatrix \<Rightarrow> qryExecContext \<Rightarrow> val \<Rightarrow> error + val list"
and selectChildrenByFilterAndFindResultsForThem ::
    "comparisonMatrix \<Rightarrow> qryExecContext \<Rightarrow> val \<Rightarrow> error + val list"
and doWithSelected :: "comparisonMatrix \<Rightarrow> qryExecContext \<Rightarrow> val \<Rightarrow> error + val list"
and doWithNotSelected :: "comparisonMatrix \<Rightarrow> qryExecContext \<Rightarrow> val \<Rightarrow> error + val list"
and evalExpr :: "comparisonMatrix \<Rightarrow> qryExecContext \<Rightarrow> val \<Rightarrow> filterExpr \<Rightarrow> error + qresult"
and evalBoolSingularOrExistenceExpr ::
    "comparisonMatrix \<Rightarrow> qryExecContext \<Rightarrow> val \<Rightarrow> filterExpr \<Rightarrow> error + sval option"
and evalLogicalExpr ::
    "comparisonMatrix \<Rightarrow> qryExecContext \<Rightarrow> val \<Rightarrow> filterExpr \<Rightarrow> filterExpr option \<Rightarrow> logicalOpTypeEnum
     \<Rightarrow> error + sval option"
and evalSingularExpr ::
    "comparisonMatrix \<Rightarrow> qryExecContext \<Rightarrow> val \<Rightarrow> filterExpr \<Rightarrow> error + sval option"
and evalCompareExpr ::
    "comparisonMatrix \<Rightarrow> qryExecContext \<Rightarrow> val \<Rightarrow> filterExpr \<Rightarrow> filterExpr \<Rightarrow> comparisonOpTypeEnum
     \<Rightarrow> error + sval option"
and evalFunctionExpr ::
    "comparisonMatrix \<Rightarrow> qryExecContext \<Rightarrow> val \<Rightarrow> string \<Rightarrow> filterExpr list \<Rightarrow> error + qresult"
and evalFilterQryExpr ::
    "comparisonMatrix \<Rightarrow> qryExecContext \<Rightarrow> val \<Rightarrow> bool \<Rightarrow> queryParser \<Rightarrow> error + qresult"
where
  "executeQuery C p rootDataNode currDataNode existenceOnly allowMissing fcts dbgMsgs =
     findResults C
       \<lparr>name = parserName p, dataRoot = rootDataNode, evalExistenceOnly = existenceOnly,
        allowMissingKeys = allowMissing, remainingSegments = segments (root p),
        qryFunctions = fcts, enableDbgMsgs = dbgMsgs, curSegment = None, curSelector = None\<rparr>
       (case nodeIdentifierSymbol (root p) of
          rootNodeSymbol \<Rightarrow> rootDataNode
        | currentNodeSymbol \<Rightarrow> currDataNode)"

| "findResults C ctx curNode =
     (case remainingSegments ctx of
        [] \<Rightarrow> Inr [curNode]
      | seg # rest \<Rightarrow>
          (case indirect curNode of
             (n, isNil) \<Rightarrow>
               if isNil then Inr []
               else findResultsLoop (evalExistenceOnly ctx)
                      (\<lambda>sel. selectChildrenAndFindResultsForThem C
                         (duplicateAndTakeFirstSegmentOff
                            (ctx\<lparr>curSegment := Some seg, curSelector := Some sel\<rparr>)) n)
                      [] (getSelectors seg)))"

| "selectChildrenAndFindResultsForThem C ctx curNode =
     (case indirect curNode of
        (n, isNil) \<Rightarrow>
          if isNil then Inr []
          else (case curSelector ctx of
                  Some WildcardSelector \<Rightarrow> selectAllChildrenAndFindResultsForThem C ctx n
                | Some (NameSelector _) \<Rightarrow> selectChildByNameAndFindResultsForThem C ctx n
                | Some (IndexSelector _) \<Rightarrow> selectChildByIndexAndFindResultsForThem C ctx n
                | Some (ArraySliceSelector _ _ _) \<Rightarrow>
                    selectChildrenBySliceAndFindResultsForThem C ctx n
                | Some (FilterSelector _) \<Rightarrow> selectChildrenByFilterAndFindResultsForThem C ctx n
                | None \<Rightarrow> Inl (Panic ''internal error - unknown selectorType'')))"

| "selectAllChildrenAndFindResultsForThem C ctx curNode =
     fst (walkChildren ctx curNode False wildcardSelFct ()
            (doWithSelected C ctx) (doWithNotSelected C ctx))"

| "selectChildByNameAndFindResultsForThem C ctx curNode =
     (case curSelector ctx of
        Some (NameSelector selName) \<Rightarrow>
          (case (if \<not> areMissingKeysAllowed ctx
                 then (case indirect curNode of
                         (n, isNil) \<Rightarrow>
                           if isNil
                           then Some (ExecutionError (name ctx) (MissingKeyValueIsNil selName))
                           else (case kindOf n of
                                   KStruct \<Rightarrow> None
                                 | KMap \<Rightarrow> None
                                 | _ \<Rightarrow> Some (ExecutionError (name ctx)
                                               (MissingKeyNotNamedValues selName))))
                 else None) of
             Some err \<Rightarrow> Inl err
           | None \<Rightarrow>
               (case walkChildren ctx curNode False (nameSelFct selName) True
                       (doWithSelected C ctx) (doWithNotSelected C ctx) of
                  (childResults, missingKey) \<Rightarrow>
                    if \<not> areMissingKeysAllowed ctx \<and> missingKey
                    then Inl (ExecutionError (name ctx) (MissingKeyDoesNotExist selName))
                    else childResults))
      | _ \<Rightarrow> Inl (Panic ''interface conversion''))"

| "selectChildByIndexAndFindResultsForThem C ctx curNode =
     (case indirect curNode of
        (n, isNil) \<Rightarrow>
          if isNil then Inr []
          else (case curSelector ctx of
                  Some (IndexSelector index0) \<Rightarrow>
                    (case (case kindOf n of
                             KArray \<Rightarrow>
                               (let selIndex = (if index0 < 0 then lenOf n + index0 else index0)
                                in if \<not> areMissingKeysAllowed ctx
                                      \<and> (selIndex \<ge> lenOf n \<or> selIndex < 0)
                                   then Inl (ExecutionError (name ctx) (MissingKeyIndex selIndex))
                                   else Inr selIndex)
                           | KString \<Rightarrow>
                               (let selIndex = (if index0 < 0 then lenOf n + index0 else index0)
                                in if \<not> areMissingKeysAllowed ctx
                                      \<and> (selIndex \<ge> lenOf n \<or> selIndex < 0)
                                   then Inl (ExecutionError (name ctx) (MissingKeyIndex selIndex))
                                   else Inr selIndex)
                           | _ \<Rightarrow>
                               if \<not> areMissingKeysAllowed ctx
                               then Inl (ExecutionError (name ctx) MissingKeyIndexNonArray)
                               else Inr index0) of
                       Inl err \<Rightarrow> Inl err
                     | Inr selIndex \<Rightarrow>
                         fst (walkChildren ctx curNode False (indexSelFct selIndex) ()
                                (doWithSelected C ctx) (doWithNotSelected C ctx)))
                | _ \<Rightarrow> Inl (Panic ''interface conversion'')))"

| "selectChildrenBySliceAndFindResultsForThem C ctx curNode =
     (case indirect curNode of
        (n, isNil) \<Rightarrow>
          if isNil then Inr []
          else (case curSelector ctx of
                  Some (ArraySliceSelector selStart selEnd sliceStep) \<Rightarrow>
                    if kindOf curNode = KArray \<or> kindOf curNode = KString
                    then (if sliceStep = 0 then Inr []
                          else (case sliceBounds selStart selEnd sliceStep (lenOf curNode) of
                                  (sliceStart, sliceEnd, step) \<Rightarrow>
                                    fst (walkChildren ctx curNode (step < 0)
                                           (sliceSelFct sliceStep step sliceEnd) sliceStart
                                           (doWithSelected C ctx) (doWithNotSelected C ctx))))
                    else if \<not> areMissingKeysAllowed ctx
                    then Inl (ExecutionError (name ctx) MissingKeySliceNonArray)
                    else fst (walkChildren ctx curNode False noSliceSelFct ()
                                (doWithSelected C ctx) (doWithNotSelected C ctx))
                | _ \<Rightarrow> Inl (Panic ''interface conversion'')))"

| "selectChildrenByFilterAndFindResultsForThem C ctx curNode =
     (case curSelector ctx of
        Some (FilterSelector expr) \<Rightarrow>
          fst (walkChildren ctx curNode False
                 (\<lambda>k st child fieldKey index.
                    (case evalBoolSingularOrExistenceExpr C ctx child expr of
                       Inl err \<Rightarrow> (Inl err, st)
                     | Inr None \<Rightarrow> (Inr False, st)
                     | Inr (Some v) \<Rightarrow>
                         (case v of
                            SNil \<Rightarrow> (Inr False, st)
                          | SBool b \<Rightarrow> (Inr b, st)
                          | _ \<Rightarrow> (Inl (Panic ''interface conversion''), st))))
                 () (doWithSelected C ctx) (doWithNotSelected C ctx))
      | _ \<Rightarrow> Inl (Panic ''interface conversion''))"

| "doWithSelected C ctx selected =
     (case indirect selected of
        (n, isNil) \<Rightarrow>
          (case (if length (remainingSegments ctx) \<le> 0
                 then (if evalExistenceOnly ctx then Inr (True, [selected])
                       else Inr (False, [selected]))
                 else if isNil then Inr (True, [])
                 else (case findResults C ctx n of
                         Inl err \<Rightarrow> Inl err
                       | Inr childResults \<Rightarrow>
                           if length childResults > 0
                           then (if evalExistenceOnly ctx then Inr (True, childResults)
                                 else Inr (False, childResults))
                           else Inr (False, []))) of
             Inl err \<Rightarrow> Inl err
           | Inr (returnNow, selectedNodeResults) \<Rightarrow>
               if returnNow then Inr selectedNodeResults
               else if \<not> isNil \<and> isDescending ctx \<and> typeHasChildren n
               then (case selectChildrenAndFindResultsForThem C ctx n of
                       Inl err \<Rightarrow> Inl err
                     | Inr descendantResults \<Rightarrow>
                         if length descendantResults > 0
                         then (if evalExistenceOnly ctx then Inr descendantResults
                               else Inr (selectedNodeResults @ descendantResults))
                         else Inr selectedNodeResults)
               else Inr selectedNodeResults))"

| "doWithNotSelected C ctx notSelected =
     (case indirect notSelected of
        (n, isNil) \<Rightarrow>
          if isNil then Inr []
          else if isDescending ctx \<and> typeHasChildren n
          then selectChildrenAndFindResultsForThem C ctx n
          else Inr [])"

| "evalExpr C ctx curNode expr =
     (case expr of
        LogicalExpr left right logicalOp \<Rightarrow>
          (case evalLogicalExpr C ctx curNode left right logicalOp of
             Inl err \<Rightarrow> Inl err
           | Inr None \<Rightarrow> Inl (Panic ''nil pointer dereference'')
           | Inr (Some v) \<Rightarrow> Inr (Singular v))
      | CompareExpr left right compareOp \<Rightarrow>
          (case evalCompareExpr C ctx curNode left right compareOp of
             Inl err \<Rightarrow> Inl err
           | Inr None \<Rightarrow> Inl (Panic ''nil pointer dereference'')
           | Inr (Some v) \<Rightarrow> Inr (Singular v))
      | FilterQry existenceOnly parser \<Rightarrow> evalFilterQryExpr C ctx curNode existenceOnly parser
      | FunctionExpr fct args \<Rightarrow> evalFunctionExpr C ctx curNode fct args
      | ParenExpr inner \<Rightarrow> evalExpr C ctx curNode inner
      | StringLiteral s \<Rightarrow> Inr (Singular (SString s))
      | BoolLiteral b \<Rightarrow> Inr (Singular (SBool b))
      | NullLiteral \<Rightarrow> Inr (Singular SNil)
      | IntLiteral i \<Rightarrow> Inr (Singular (SInt i))
      | FloatLiteral f \<Rightarrow> Inr (Singular (SFloat f)))"

| "evalBoolSingularOrExistenceExpr C ctx curNode expr =
     boolSingularOrExistence ctx (evalExpr C ctx curNode expr)"

| "evalLogicalExpr C ctx curNode left right logicalOp =
     (case evalBoolSingularOrExistenceExpr C ctx curNode left of
        Inl err \<Rightarrow> Inl err
      | Inr (Some (SBool leftVal)) \<Rightarrow>
          if logicalOp = notOp then Inr (Some (SBool (\<not> leftVal)))
          else if \<not> leftVal \<and> logicalOp = andOp then Inr (Some (SBool False))
          else if leftVal \<and> logicalOp = orOp then Inr (Some (SBool True))
          else (case right of
                  None \<Rightarrow> Inl (Panic ''nil pointer dereference'')
                | Some rightExpr \<Rightarrow>
                    (case evalBoolSingularOrExistenceExpr C ctx curNode rightExpr of
                       Inl err \<Rightarrow> Inl err
                     | Inr (Some (SBool rightVal)) \<Rightarrow> Inr (Some (SBool rightVal))
                     | Inr _ \<Rightarrow> Inl (Panic ''nil pointer dereference'')))
      | Inr _ \<Rightarrow> Inl (Panic ''nil pointer dereference''))"

| "evalSingularExpr C ctx curNode expr = singularOf (evalExpr C ctx curNode expr)"

| "evalCompareExpr C ctx curNode left right compareOp =
     (case evalSingularExpr C ctx curNode left of
        Inl err \<Rightarrow> Inl err
      | Inr l \<Rightarrow>
          (case evalSingularExpr C ctx curNode right of
             Inl err \<Rightarrow> Inl err
           | Inr r \<Rightarrow> Inr (Some (SBool (compareValues C l r compareOp)))))"

| "evalFunctionExpr C ctx curNode fct args =
     (case map_of (qryFunctions ctx) fct of
        None \<Rightarrow> Inl (ExecutionError (name ctx) (FctDoesNotExist fct))
      | Some f \<Rightarrow>
          (case evalArgs (evalExpr C ctx curNode) args of
             Inl err \<Rightarrow> Inl err
           | Inr argResults \<Rightarrow> f argResults))"

| "evalFilterQryExpr C ctx curNode existenceOnly parser =
     (case executeQuery C parser (dataRoot ctx) curNode existenceOnly
             (if \<not> allowMissingKeys ctx \<and> nodeIdentifierSymbol (root parser) = currentNodeSymbol
              then areMissingKeysAllowed ctx
              else allowMissingKeys ctx)
             (qryFunctions ctx) (enableDbgMsgs ctx) of
        Inl err \<Rightarrow> Inl err
      | Inr qryResult \<Rightarrow> Inr (ResultSet (Some qryResult)))"
  by pat_completeness auto



termination
  apply (relation "inv_image (less_than <*lex*> less_than <*lex*> less_than)
    (\<lambda>x. case x of
        Inl (Inl (Inl (Inl (C, p, r)))) \<Rightarrow> (size p, 0::nat, 0::nat)
      | Inl (Inl (Inl (Inr (C, ctx, n)))) \<Rightarrow> (size_list size (remainingSegments ctx), 0, 0)
      | Inl (Inl (Inr (Inl (C, ctx, n)))) \<Rightarrow> (ctxMeasure ctx, size n, 1)
      | Inl (Inl (Inr (Inr (C, ctx, n)))) \<Rightarrow> (ctxMeasure ctx, size n, 0)
      | Inl (Inr (Inl (Inl (C, ctx, n)))) \<Rightarrow> (ctxMeasure ctx, size n, 0)
      | Inl (Inr (Inl (Inr (C, ctx, n)))) \<Rightarrow> (ctxMeasure ctx, size n, 0)
      | Inl (Inr (Inr (Inl (C, ctx, n)))) \<Rightarrow> (ctxMeasure ctx, size n, 0)
      | Inl (Inr (Inr (Inr (C, ctx, n)))) \<Rightarrow> (ctxMeasure ctx, size n, 0)
      | Inr (Inl (Inl (Inl (C, ctx, n)))) \<Rightarrow> (ctxMeasure ctx, size n, 2)
      | Inr (Inl (Inl (Inr (C, ctx, n)))) \<Rightarrow> (ctxMeasure ctx, size n, 2)
      | Inr (Inl (Inr (Inl (C, ctx, n, e)))) \<Rightarrow> (size e, 0, 3)
      | Inr (Inl (Inr (Inr (C, ctx, n, e)))) \<Rightarrow> (size e, 0, 4)
      | Inr (Inr (Inl (Inl (C, ctx, n, l, r, op)))) \<Rightarrow> (size (LogicalExpr l r op), 0, 2)
      | Inr (Inr (Inl (Inr (C, ctx, n, e)))) \<Rightarrow> (size e, 0, 4)
      | Inr (Inr (Inr (Inl (C, ctx, n, l, r, op)))) \<Rightarrow> (size (CompareExpr l r op), 0, 2)
      | Inr (Inr (Inr (Inr (Inl (C, ctx, n, fct, args))))) \<Rightarrow> (size (FunctionExpr fct args), 0, 2)
      | Inr (Inr (Inr (Inr (Inr (C, ctx, n, ex, p))))) \<Rightarrow> (size (FilterQry ex p), 0, 2))")
                      apply (auto simp: ctxMeasure_def indirect_def duplicateAndTakeFirstSegmentOff_def
      size_segments_root childrenOf_size size_arg_in_args
      dest: size_selector_in_segment)
  done


lemmas exec_simps = executeQuery.simps findResults.simps selectChildrenAndFindResultsForThem.simps
  selectAllChildrenAndFindResultsForThem.simps selectChildByNameAndFindResultsForThem.simps
  selectChildByIndexAndFindResultsForThem.simps selectChildrenBySliceAndFindResultsForThem.simps
  selectChildrenByFilterAndFindResultsForThem.simps doWithSelected.simps doWithNotSelected.simps
  evalExpr.simps evalBoolSingularOrExistenceExpr.simps evalLogicalExpr.simps evalSingularExpr.simps
  evalCompareExpr.simps evalFunctionExpr.simps evalFilterQryExpr.simps

declare exec_simps [simp del]

section \<open>Missing keys\<close>

text \<open>
  A result that is a missing-key error, and a registry none of whose functions returns one.
\<close>

definition raisesMissingKey :: "error + 'a \<Rightarrow> bool" where
  "raisesMissingKey r = (case r of Inl err \<Rightarrow> isMissingKeyError err | Inr _ \<Rightarrow> False)"


lemma raisesMissingKey_simps [simp]:
  "raisesMissingKey (Inl err) = isMissingKeyError err"
  "raisesMissingKey (Inr x) = False"
  by (simp_all add: raisesMissingKey_def)









section \<open>Properties of the built-in functions\<close>

text \<open>
  C6, counterexample. The claim says \<open>count\<close> returns null for a Singular argument; on
  \<open>Singular 3\<close> it returns an error (the repository's \<open>TestCountSingular\<close> asserts it).
\<close>

theorem C6_count_singular_counterexample:
  "count [Singular (SInt 3)] = Inl (Errorf CountUnsupportedType)"
  by (simp add: count_def)

text \<open>
  C6, amended. With exactly one argument, \<open>count\<close> returns the number of elements of a
  ResultSet whose element slice is present as a Singular integer, without error; it returns
  null without error for an absent argument and for a ResultSet whose element slice is nil;
  and it returns an error for every Singular argument.
\<close>

theorem C6_count_one_argument:
  "count [ResultSet (Some xs)] = Inr (Singular (SInt (int (length xs))))
   \<and> count [QNil] = Inr QNil
   \<and> count [ResultSet None] = Inr QNil
   \<and> count [Singular v] = Inl (Errorf CountUnsupportedType)"
  by (simp add: count_def)

text \<open>
  The vocabulary of the claim about \<open>match\<close> and \<open>search\<close>: an argument is a ResultSet
  of more than one element, or it reduces to the single string \<open>singleStringOf\<close> gives
  (a Singular holding a Go string or a \<open>reflect.Value\<close> whose own kind is String, or a
  ResultSet of one string element), or it does neither. A Singular holding a
  \<open>reflect.Value\<close> of kind Interface or Pointer does not reduce to a string, whatever it
  leads to: \<open>getSingularString\<close> reads its kind without \<open>indirect\<close>.
\<close>

definition hasMultipleElements :: "qresult \<Rightarrow> bool" where
  "hasMultipleElements a = (case a of ResultSet rs \<Rightarrow> length (elemsOf rs) > 1 | _ \<Rightarrow> False)"

fun singleStringOf :: "qresult \<Rightarrow> string option" where
  "singleStringOf (Singular (SString s)) = Some s"
| "singleStringOf (Singular (SRef (Direct (VString s)))) = Some s"
| "singleStringOf (ResultSet (Some [VString s])) = Some s"
| "singleStringOf _ = None"

lemma getSingularString_multiple:
  "hasMultipleElements a \<Longrightarrow> getSingularString a = Inl (Errorf CannotExtractSingularString)"
  by (cases a) (auto simp: hasMultipleElements_def)

lemma getSingularString_single:
  "\<not> hasMultipleElements a \<Longrightarrow>
   getSingularString a = Inr (map_option SString (singleStringOf a))"
proof (cases a)
  case QNil
  then show ?thesis by simp
next
  case (ResultSet rs)
  assume "\<not> hasMultipleElements a"
  with ResultSet have le: "length (elemsOf rs) \<le> 1" by (simp add: hasMultipleElements_def)
  show ?thesis
  proof (cases rs)
    case None
    with ResultSet show ?thesis by simp
  next
    case (Some xs)
    with le have "xs = [] \<or> (\<exists>x. xs = [x])" by (cases xs) auto
    then show ?thesis
    proof
      assume "xs = []"
      with ResultSet Some show ?thesis by simp
    next
      assume "\<exists>x. xs = [x]"
      then obtain x where "xs = [x]" ..
      with ResultSet Some show ?thesis by (cases x) (simp_all add: indirect_def)
    qed
  qed
next
  case (Singular v)
  show ?thesis
  proof (cases v)
    case (SRef w)
    show ?thesis
    proof (cases w)
      case (Direct x)
      with Singular SRef show ?thesis by (cases x) simp_all
    next
      case (Wrapped x)
      with Singular SRef show ?thesis by simp
    qed
  qed (simp_all add: Singular)
qed

text \<open>
  C9. With exactly two arguments, \<open>match\<close> and \<open>search\<close> return an error when an argument
  is a ResultSet of more than one element; otherwise they return null, and no error, as soon
  as one argument does not reduce to a single string; and when both do, the only error left
  is the pattern that does not compile. So an error comes from a ResultSet of several
  elements or from the regular expression, and from nothing else.
\<close>

theorem C9_match_search_null_unless_multiple:
  "(hasMultipleElements a \<or> hasMultipleElements b \<longrightarrow>
      match compile [a, b] = Inl (Errorf CannotExtractSingularString)
      \<and> search compile [a, b] = Inl (Errorf CannotExtractSingularString))
   \<and> (\<not> hasMultipleElements a \<and> \<not> hasMultipleElements b
        \<and> (singleStringOf a = None \<or> singleStringOf b = None) \<longrightarrow>
      match compile [a, b] = Inr QNil \<and> search compile [a, b] = Inr QNil)
   \<and> (singleStringOf a = Some s \<and> singleStringOf b = Some re \<longrightarrow>
      match compile [a, b] =
        (case compile (CHR 0x5C # ''A(?:'' @ re @ '')'' @ CHR 0x5C # ''z'') of
           None \<Rightarrow> Inl (RegexpError re)
         | Some matchString \<Rightarrow> Inr (Singular (SBool (matchString s))))
      \<and> search compile [a, b] =
        (case compile re of
           None \<Rightarrow> Inl (RegexpError re)
         | Some matchString \<Rightarrow> Inr (Singular (SBool (matchString s)))))"
proof (intro conjI impI)
  assume m: "hasMultipleElements a \<or> hasMultipleElements b"
  show "match compile [a, b] = Inl (Errorf CannotExtractSingularString)"
  proof (cases "hasMultipleElements a")
    case True
    then show ?thesis by (simp add: match_def getSingularString_multiple)
  next
    case False
    with m have "hasMultipleElements b" by simp
    with False show ?thesis
      by (simp add: match_def getSingularString_multiple getSingularString_single)
  qed
  show "search compile [a, b] = Inl (Errorf CannotExtractSingularString)"
  proof (cases "hasMultipleElements a")
    case True
    then show ?thesis by (simp add: search_def getSingularString_multiple)
  next
    case False
    with m have "hasMultipleElements b" by simp
    with False show ?thesis
      by (simp add: search_def getSingularString_multiple getSingularString_single)
  qed
next
  assume h: "\<not> hasMultipleElements a \<and> \<not> hasMultipleElements b
        \<and> (singleStringOf a = None \<or> singleStringOf b = None)"
  then show "match compile [a, b] = Inr QNil"
    by (auto simp: match_def getSingularString_single)
  from h show "search compile [a, b] = Inr QNil"
    by (auto simp: search_def getSingularString_single)
next
  assume h: "singleStringOf a = Some s \<and> singleStringOf b = Some re"
  have na: "\<not> hasMultipleElements a"
    using h by (cases a rule: singleStringOf.cases) (auto simp: hasMultipleElements_def)
  have nb: "\<not> hasMultipleElements b"
    using h by (cases b rule: singleStringOf.cases) (auto simp: hasMultipleElements_def)
  from h na nb show "match compile [a, b] =
        (case compile (CHR 0x5C # ''A(?:'' @ re @ '')'' @ CHR 0x5C # ''z'') of
           None \<Rightarrow> Inl (RegexpError re)
         | Some matchString \<Rightarrow> Inr (Singular (SBool (matchString s))))"
    by (simp add: match_def getSingularString_single)
  from h na nb show "search compile [a, b] =
        (case compile re of
           None \<Rightarrow> Inl (RegexpError re)
         | Some matchString \<Rightarrow> Inr (Singular (SBool (matchString s))))"
    by (simp add: search_def getSingularString_single)
qed

theorem C9_match_search_witness:
  "match (\<lambda>p. Some (\<lambda>s. s = ''abc''))
      [ResultSet (Some [VString ''a'', VString ''b'']), Singular (SString ''x'')]
     = Inl (Errorf CannotExtractSingularString)
   \<and> search (\<lambda>p. Some (\<lambda>s. s = ''abc''))
      [Singular (SInt 5), ResultSet (Some [])] = Inr QNil
   \<and> match (\<lambda>p. Some (\<lambda>s. s = ''abc''))
      [ResultSet (Some [VString ''abc'']), Singular (SString ''x'')]
     = Inr (Singular (SBool True))
   \<and> match (\<lambda>p. Some (\<lambda>s. s = ''abc''))
      [Singular (SRef (Wrapped (VString ''abc''))), Singular (SString ''x'')] = Inr QNil
   \<and> search (\<lambda>p. Some (\<lambda>s. s = ''abc''))
      [Singular (SRef (Direct (VString ''abc''))), Singular (SString ''x'')]
     = Inr (Singular (SBool True))"
proof -
  let ?c = "\<lambda>p::string. Some (\<lambda>s::string. s = ''abc'')"
  have m: "hasMultipleElements (ResultSet (Some [VString ''a'', VString ''b'']))"
    by (simp add: hasMultipleElements_def)
  have n: "\<not> hasMultipleElements (Singular (SInt 5))"
     "\<not> hasMultipleElements (ResultSet (Some []))"
     "singleStringOf (Singular (SInt 5)) = None"
    by (simp_all add: hasMultipleElements_def)
  have s: "singleStringOf (ResultSet (Some [VString ''abc''])) = Some ''abc''"
     "singleStringOf (Singular (SString ''x'')) = Some ''x''"
     "singleStringOf (Singular (SRef (Direct (VString ''abc'')))) = Some ''abc''"
    by simp_all
  have w: "\<not> hasMultipleElements (Singular (SRef (Wrapped (VString ''abc''))))"
     "\<not> hasMultipleElements (Singular (SString ''x''))"
     "singleStringOf (Singular (SRef (Wrapped (VString ''abc'')))) = None"
    by (simp_all add: hasMultipleElements_def)
  show ?thesis
    using m n s w
      C9_match_search_null_unless_multiple
        [of "ResultSet (Some [VString ''a'', VString ''b''])" "Singular (SString ''x'')" ?c]
      C9_match_search_null_unless_multiple
        [of "Singular (SInt 5)" "ResultSet (Some [])" ?c]
      C9_match_search_null_unless_multiple
        [of "ResultSet (Some [VString ''abc''])" "Singular (SString ''x'')" ?c "''abc''" "''x''"]
      C9_match_search_null_unless_multiple
        [of "Singular (SRef (Wrapped (VString ''abc'')))" "Singular (SString ''x'')" ?c]
      C9_match_search_null_unless_multiple
        [of "Singular (SRef (Direct (VString ''abc'')))" "Singular (SString ''x'')" ?c
            "''abc''" "''x''"]
    by simp
qed

section \<open>Properties of the comparison of null and missing operands\<close>


text \<open>The query \<open>$[?(@.x != @.y)]\<close>.\<close>

definition relName :: "string \<Rightarrow> string \<Rightarrow> filterExpr" where
  "relName qryName selName = FilterQry False (QueryParser qryName
      (NodeIdentifier currentNodeSymbol [SegmentImpl childSegmentType [NameSelector selName]]) True)"

definition neQry :: queryParser where
  "neQry = QueryParser ''JSONPathQry''
     (NodeIdentifier rootNodeSymbol
        [SegmentImpl childSegmentType
           [FilterSelector (CompareExpr (relName ''filterQry-0'' ''x'')
                                        (relName ''filterQry-1'' ''y'') neOp)]]) False"

text \<open>
  C1, the code at the failing inputs. \<open>compareValues\<close> answers before it looks at the
  operator: two missing operands, and two null operands, compare true under \<open>!=\<close> and under
  every ordering operator, and a missing or null operand against a value compares false
  under \<open>!=\<close>. So \<open>$[?(@.x != @.y)]\<close> selects the element \<open>{}\<close>, on which both
  operands are missing.
\<close>

theorem C1_compareValues_ignores_operator:
  "compareValues C None None neOp = True
   \<and> compareValues C None None ltOp = True
   \<and> compareValues C (Some SNil) (Some SNil) neOp = True
   \<and> compareValues C (Some SNil) (Some SNil) geOp = True
   \<and> compareValues C None (Some (SInt 1)) neOp = False
   \<and> compareValues C (Some SNil) (Some (SInt 1)) neOp = False
   \<and> executeQuery C neQry (VArray [VMap []]) (VArray [VMap []]) False True
        (newFunctionRegistry compile) False = Inr [VMap []]"
proof -
  have "executeQuery C neQry (VArray [VMap []]) (VArray [VMap []]) False True
        (newFunctionRegistry compile) False = Inr [VMap []]"
    by code_simp
  then show ?thesis by (simp add: compareValues_def)
qed

section \<open>Properties of comparisons on ResultSets\<close>








section \<open>Walks that select nothing, and the last segment\<close>





section \<open>Properties of missing keys in filter sub-queries\<close>















section \<open>Slices\<close>














lemma findResultsLoop_single:
  "findResultsLoop False f [] [sel] = (case f sel of Inl err \<Rightarrow> Inl err | Inr r \<Rightarrow> Inr r)"
  by (simp split: sum.splits)











end
